theory Spec2Isabelle
  imports Main "HOL-Library.Word"
begin

section \<open>Conventions of the embedding\<close>

text \<open>
  The sources are the per-network templates of WalletKitCore:
  \<^verbatim>\<open>BR__Name__Address.c\<close>, \<^verbatim>\<open>WKNetwork__SYMBOL__.c\<close> and
  \<^verbatim>\<open>WKWalletManager__SYMBOL__.c\<close>. The placeholders \<^verbatim>\<open>__name__\<close>, \<^verbatim>\<open>__Name__\<close> and
  \<^verbatim>\<open>__SYMBOL__\<close> cannot start or end a HOL name, so \<^verbatim>\<open>__name__AddressIsFeeAddress\<close> is
  \<open>name_AddressIsFeeAddress\<close>, \<^verbatim>\<open>BR__Name__Address\<close> is \<open>BR_Name_Address\<close> and
  \<^verbatim>\<open>wkNetworkEncodeHash__SYMBOL__\<close> is \<open>wkNetworkEncodeHash\<close>.

  A C call either returns a value, stops the process on a failed \<^verbatim>\<open>assert\<close>, or has
  no defined behaviour (a null pointer is dereferenced, a buffer is read beyond its end,
  a scanned number does not fit its object). Memory allocation is taken to succeed, and
  reference counting (the \<^verbatim>\<open>...Give\<close> and \<^verbatim>\<open>...Free\<close> calls) is not modelled.
\<close>

datatype 'a outcome = Returns 'a | AssertionFailed | Undefined

fun and_then :: "'a outcome \<Rightarrow> ('a \<Rightarrow> 'b outcome) \<Rightarrow> 'b outcome" where
  "and_then (Returns x) f = f x"
| "and_then AssertionFailed f = AssertionFailed"
| "and_then Undefined f = Undefined"

text \<open>
  How the file is compiled. \<^verbatim>\<open>assert\<close> of \<^verbatim>\<open><assert.h>\<close> expands to nothing when
  \<^verbatim>\<open>NDEBUG\<close> is defined. The macro \<^verbatim>\<open>ASSERT_UNIMPLEMENTED\<close> comes from a header that is
  not among the sources: what it does is a parameter (it returns, or it stops the
  process).
\<close>

record build =
  NDEBUG :: bool
  ASSERT_UNIMPLEMENTED :: "unit outcome"

definition c_assert :: "build \<Rightarrow> bool \<Rightarrow> unit outcome" where
  "c_assert b e = (if NDEBUG b then Returns () else if e then Returns () else AssertionFailed)"

section \<open>The C library functions the sources call\<close>

text \<open>
  A C string is a \<open>string\<close> without the terminating NUL; a \<^verbatim>\<open>char *\<close> that may be
  \<^verbatim>\<open>NULL\<close> is a \<open>string option\<close>. A byte buffer is a list of bytes.
\<close>

definition strlen :: "string \<Rightarrow> nat" where
  "strlen s = length s"

fun strcmp :: "string \<Rightarrow> string \<Rightarrow> int" where
  "strcmp [] [] = 0"
| "strcmp [] (y # ys) = - 1"
| "strcmp (x # xs) [] = 1"
| "strcmp (x # xs) (y # ys) =
     (if x = y then strcmp xs ys
      else if (of_char x :: nat) < of_char y then - 1 else 1)"

definition strdup :: "string \<Rightarrow> string option" where
  "strdup s = Some s"

fun cmp_bytes :: "8 word list \<Rightarrow> 8 word list \<Rightarrow> int" where
  "cmp_bytes (x # xs) (y # ys) =
     (if x = y then cmp_bytes xs ys else if x < y then - 1 else 1)"
| "cmp_bytes xs ys = 0"

text \<open>\<^verbatim>\<open>memcmp (a, b, n)\<close> reads \<open>n\<close> bytes of both buffers.\<close>

definition memcmp :: "8 word list \<Rightarrow> 8 word list \<Rightarrow> nat \<Rightarrow> int outcome" where
  "memcmp a b n =
     (if n \<le> length a \<and> n \<le> length b then Returns (cmp_bytes (take n a) (take n b))
      else Undefined)"

text \<open>
  \<^verbatim>\<open>memcpy (dst, src, n)\<close>: the new content of \<open>dst\<close>. Both buffers hold \<open>n\<close> bytes
  at the two calls of it modelled here (lemma \<open>sentinel_bytes_length\<close>).
\<close>

definition memcpy :: "8 word list \<Rightarrow> 8 word list \<Rightarrow> nat \<Rightarrow> 8 word list" where
  "memcpy dst src n = take n src @ drop n dst"

text \<open>\<^verbatim>\<open>calloc (1, n)\<close>: \<open>n\<close> zero bytes.\<close>

definition calloc_bytes :: "nat \<Rightarrow> 8 word list" where
  "calloc_bytes n = replicate n 0"

section \<open>BR__Name__Address.c\<close>

definition NAME_ADDRESS_BYTES :: nat where
  "NAME_ADDRESS_BYTES = 1"

text \<open>
  \<^verbatim>\<open>static uint8_t feeAddressBytes [__NAME___ADDRESS_BYTES] = { 0 };\<close> and the same
  for \<^verbatim>\<open>unknownAddressBytes\<close>: the first byte is given, the others are zero.
\<close>

definition feeAddressBytes :: "8 word list" where
  "feeAddressBytes = 0 # replicate (NAME_ADDRESS_BYTES - 1) 0"

definition unknownAddressBytes :: "8 word list" where
  "unknownAddressBytes = 0 # replicate (NAME_ADDRESS_BYTES - 1) 0"

record BR_Name_AddressRecord =
  bytes :: "8 word list"

text \<open>\<^verbatim>\<open>BR__Name__Address\<close> is a pointer to the record; \<open>None\<close> is \<^verbatim>\<open>NULL\<close>.\<close>

type_synonym BR_Name_Address = "BR_Name_AddressRecord option"

definition name_AddressCreateFeeAddress :: "BR_Name_Address" where
  "name_AddressCreateFeeAddress =
     Some \<lparr>bytes = memcpy (calloc_bytes NAME_ADDRESS_BYTES) feeAddressBytes NAME_ADDRESS_BYTES\<rparr>"

definition name_AddressCreateUnknownAddress :: "BR_Name_Address" where
  "name_AddressCreateUnknownAddress =
     Some \<lparr>bytes = memcpy (calloc_bytes NAME_ADDRESS_BYTES) unknownAddressBytes NAME_ADDRESS_BYTES\<rparr>"

definition name_AddressIsFeeAddress :: "build \<Rightarrow> BR_Name_Address \<Rightarrow> bool outcome" where
  "name_AddressIsFeeAddress b address =
     and_then (c_assert b (address \<noteq> None)) (\<lambda>_.
       case address of
         None \<Rightarrow> Undefined
       | Some a \<Rightarrow>
           and_then (memcmp (bytes a) feeAddressBytes (length feeAddressBytes)) (\<lambda>r.
             Returns (0 = r)))"

definition name_AddressIsUnknownAddress :: "build \<Rightarrow> BR_Name_Address \<Rightarrow> bool outcome" where
  "name_AddressIsUnknownAddress b address =
     and_then (c_assert b (address \<noteq> None)) (\<lambda>_.
       case address of
         None \<Rightarrow> Undefined
       | Some a \<Rightarrow>
           and_then (memcmp (bytes a) unknownAddressBytes (length unknownAddressBytes)) (\<lambda>r.
             Returns (0 = r)))"

text \<open>
  \<^verbatim>\<open>__name__AddressAsString\<close>: the Base58 encoding of the last branch is under
  \<^verbatim>\<open>#if 0\<close>, so the branch leaves \<^verbatim>\<open>string\<close> at \<^verbatim>\<open>NULL\<close>.
\<close>

definition name_AddressAsString :: "build \<Rightarrow> BR_Name_Address \<Rightarrow> string option outcome" where
  "name_AddressAsString b address =
     and_then (c_assert b (address \<noteq> None)) (\<lambda>_.
     and_then (name_AddressIsFeeAddress b address) (\<lambda>isFee.
       if isFee then Returns (strdup ''__fee__'')
       else
         and_then (name_AddressIsUnknownAddress b address) (\<lambda>isUnknown.
           if isUnknown then Returns (strdup ''unknown'')
           else and_then (ASSERT_UNIMPLEMENTED b) (\<lambda>_. Returns None))))"

text \<open>
  \<^verbatim>\<open>__name__AddressCreateFromKey\<close>: the hashing of the key is under \<^verbatim>\<open>#if 0\<close>; what
  is returned is the zeroed allocation.
\<close>

definition name_AddressCreateFromKey ::
  "build \<Rightarrow> 8 word list \<Rightarrow> nat \<Rightarrow> BR_Name_Address outcome" where
  "name_AddressCreateFromKey b pubKey pubKeyLen =
     and_then (ASSERT_UNIMPLEMENTED b) (\<lambda>_.
       Returns (Some \<lparr>bytes = calloc_bytes NAME_ADDRESS_BYTES\<rparr>))"

text \<open>
  \<^verbatim>\<open>__name__AddressStringToAddress\<close>: the Base58 decoding and the prefix check are
  under \<^verbatim>\<open>#if 0\<close>; the function returns \<^verbatim>\<open>NULL\<close>.
\<close>

definition name_AddressStringToAddress :: "build \<Rightarrow> string \<Rightarrow> BR_Name_Address outcome" where
  "name_AddressStringToAddress b input =
     and_then (ASSERT_UNIMPLEMENTED b) (\<lambda>_. Returns None)"

definition name_AddressCreateFromString ::
  "build \<Rightarrow> string option \<Rightarrow> bool \<Rightarrow> BR_Name_Address outcome" where
  "name_AddressCreateFromString b addressString strict =
     (case addressString of
        None \<Rightarrow> Returns (if strict then None else name_AddressCreateUnknownAddress)
      | Some s \<Rightarrow>
          if strlen s = 0 then
            Returns (if strict then None else name_AddressCreateUnknownAddress)
          else if strict then name_AddressStringToAddress b s
          else if strcmp s ''unknown'' = 0 then Returns name_AddressCreateUnknownAddress
          else if strcmp s ''__fee__'' = 0 then Returns name_AddressCreateFeeAddress
          else name_AddressStringToAddress b s)"

text \<open>\<^verbatim>\<open>__name__AddressEqual\<close> dereferences both pointers without a check.\<close>

definition name_AddressEqual :: "BR_Name_Address \<Rightarrow> BR_Name_Address \<Rightarrow> bool outcome" where
  "name_AddressEqual a1 a2 =
     (case (a1, a2) of
        (Some r1, Some r2) \<Rightarrow>
          and_then (memcmp (bytes r1) (bytes r2) NAME_ADDRESS_BYTES) (\<lambda>r. Returns (0 = r))
      | _ \<Rightarrow> Undefined)"

definition name_AddressClone :: "BR_Name_Address \<Rightarrow> BR_Name_Address" where
  "name_AddressClone address = (case address of Some a \<Rightarrow> Some a | None \<Rightarrow> None)"

section \<open>WKNetwork__SYMBOL__.c\<close>

text \<open>
  A hash is a fixed-size digest behind a pointer. \<^verbatim>\<open>wkNetworkEncodeHash__SYMBOL__\<close>
  has its Base58 encoding under \<^verbatim>\<open>#if 0\<close> and returns \<^verbatim>\<open>NULL\<close>.
\<close>

record WKHashRecord =
  hash_bytes :: "8 word list"

type_synonym WKHash = "WKHashRecord option"


section \<open>WKWalletManager__SYMBOL__.c\<close>

subsection \<open>Scanning a decimal number\<close>

text \<open>
  \<^verbatim>\<open>sscanf (s, "%" PRIu64, &x)\<close>: white space is skipped, then an optional sign and
  the longest run of decimal digits are read, as \<^verbatim>\<open>strtoull\<close> in base 10 does (a minus
  sign negates in the unsigned type). With no digit there nothing is converted and \<open>x\<close>
  keeps what it held; a number that does not fit 64 bits has no defined result.
\<close>

datatype scanned = NoConversion | Converted "64 word" | Unrepresentable

definition isspace :: "char \<Rightarrow> bool" where
  "isspace c = (c = CHR '' '' \<or> c = CHR 0x09 \<or> c = CHR 0x0A \<or> c = CHR 0x0B
     \<or> c = CHR 0x0C \<or> c = CHR 0x0D)"

definition isdigit :: "char \<Rightarrow> bool" where
  "isdigit c = ((48::nat) \<le> of_char c \<and> of_char c \<le> (57::nat))"

definition decimal_value :: "string \<Rightarrow> nat" where
  "decimal_value ds = foldl (\<lambda>acc c. 10 * acc + (of_char c - 48)) 0 ds"

definition sscanf_PRIu64 :: "string \<Rightarrow> scanned" where
  "sscanf_PRIu64 s =
     (let s1 = dropWhile isspace s;
          negative = (case s1 of [] \<Rightarrow> False | c # r \<Rightarrow> c = CHR ''-'');
          s2 = (case s1 of [] \<Rightarrow> [] | c # r \<Rightarrow> if c = CHR ''-'' \<or> c = CHR ''+'' then r else s1);
          ds = takeWhile isdigit s2;
          v = decimal_value ds
      in if ds = [] then NoConversion
         else if v < 2 ^ 64 then Converted (if negative then - word_of_nat v else word_of_nat v)
         else Unrepresentable)"

text \<open>
  The content of a 64-bit variable: \<open>None\<close> while it is uninitialised (its value is
  indeterminate). \<open>scan_into old s\<close> is the content after the \<^verbatim>\<open>sscanf\<close> call on a
  variable that held \<open>old\<close>.
\<close>

definition scan_into :: "64 word option \<Rightarrow> string \<Rightarrow> 64 word option outcome" where
  "scan_into old s =
     (case sscanf_PRIu64 s of
        NoConversion \<Rightarrow> Returns old
      | Converted v \<Rightarrow> Returns (Some v)
      | Unrepresentable \<Rightarrow> Undefined)"

subsection \<open>The objects of the generic wallet kit\<close>

text \<open>
  The generic object model (units, accounts, listeners, keys, amounts, fee bases,
  transfers, wallets, managers, bundles) is declared in headers that are not among the
  sources, and its functions are defined elsewhere. Objects that this file only passes
  on are handles (natural numbers). The network's own fee basis \<^verbatim>\<open>BR__Name__FeeBasis\<close>
  is a type parameter \<open>'fb\<close>, and the value of \<^verbatim>\<open>__name__FeeBasisCreate ()\<close> a
  parameter of that type. \<^verbatim>\<open>BR__Name__Amount\<close> is a 64-bit integer, as the conversion
  \<^verbatim>\<open>PRIu64\<close> requires. Pointers that the source dereferences without a check are
  taken to be valid.
\<close>

type_synonym handle = nat

datatype WKBoolean = WK_FALSE | WK_TRUE

text \<open>
  Of the enumeration \<^verbatim>\<open>WKWalletSweeperStatus\<close> only the value this file returns and
  the success value are listed.
\<close>

datatype WKWalletSweeperStatus =
  WK_WALLET_SWEEPER_SUCCESS | WK_WALLET_SWEEPER_UNSUPPORTED_CURRENCY

text \<open>
  Modelled from the spec: \<^verbatim>\<open>wkAmountCreateInteger\<close> is not among the sources. An
  amount is an integer value in a unit; the constructor makes the amount of its two
  arguments.
\<close>

record WKAmountRecord =
  amount_value :: int
  amount_unit :: handle

definition wkAmountCreateInteger :: "int \<Rightarrow> handle \<Rightarrow> WKAmountRecord" where
  "wkAmountCreateInteger v unit = \<lparr>amount_value = v, amount_unit = unit\<rparr>"

record WKNetworkFeeRecord =
  pricePerCostFactor :: handle
  pricePerCostFactorUnit :: handle

text \<open>
  Modelled from the spec: \<^verbatim>\<open>wkFeeBasisCreateAs__SYMBOL__\<close> is not among the sources.
  The generic fee basis wraps the network's fee basis together with the unit it is
  priced in.
\<close>

record 'fb WKFeeBasisRecord =
  feeBasis_unit :: handle
  feeBasis_basis :: 'fb

definition wkFeeBasisCreateAs :: "handle \<Rightarrow> 'fb \<Rightarrow> 'fb WKFeeBasisRecord" where
  "wkFeeBasisCreateAs unit fb = \<lparr>feeBasis_unit = unit, feeBasis_basis = fb\<rparr>"

text \<open>
  Modelled from the spec: the record \<^verbatim>\<open>WKClientTransferBundle\<close> is declared in a header
  that is not among the sources. The bundle's wire shape is \<open>{hash, uids, from, to,
  amount, fee?, status, attributes: [(key, value)]}\<close>, all text. The source tests \<^verbatim>\<open>fee\<close> against
  \<^verbatim>\<open>NULL\<close> and the address decoder tests \<^verbatim>\<open>from\<close> and \<^verbatim>\<open>to\<close>, so these three may
  be absent.
\<close>

record WKClientTransferBundleRecord =
  bundle_status :: string
  bundle_uids :: string
  bundle_hash :: string
  bundle_from :: "string option"
  bundle_to :: "string option"
  bundle_amount :: string
  bundle_fee :: "string option"
  bundle_attributes :: "(string \<times> string) list"

text \<open>
  Modelled from the spec: \<^verbatim>\<open>__name__TransactionCreate\<close> is not among the sources. A
  new transfer is constructed "from decoded source/target/amount and a freshly created
  default fee basis": the transaction holds these four. An amount of \<open>None\<close> is an
  indeterminate one.
\<close>

record 'fb BR_Name_TransactionRecord =
  transaction_source :: BR_Name_Address
  transaction_target :: BR_Name_Address
  transaction_amount :: "64 word option"
  transaction_feeBasis :: 'fb

definition name_TransactionCreate ::
  "BR_Name_Address \<Rightarrow> BR_Name_Address \<Rightarrow> 64 word option \<Rightarrow> 'fb \<Rightarrow> 'fb BR_Name_TransactionRecord" where
  "name_TransactionCreate source target amount feeBasis =
     \<lparr>transaction_source = source, transaction_target = target,
      transaction_amount = amount, transaction_feeBasis = feeBasis\<rparr>"

text \<open>
  Modelled from the spec: the transfer state is "derived from bundle status fields plus
  the fee basis" (\<^verbatim>\<open>wkClientTransferBundleGetTransferState\<close> is not among the
  sources).
\<close>

record 'fb WKTransferStateRecord =
  state_status :: string
  state_feeBasis :: "'fb WKFeeBasisRecord"

definition wkClientTransferBundleGetTransferState ::
  "WKClientTransferBundleRecord \<Rightarrow> 'fb WKFeeBasisRecord \<Rightarrow> 'fb WKTransferStateRecord" where
  "wkClientTransferBundleGetTransferState bundle feeBasis =
     \<lparr>state_status = bundle_status bundle, state_feeBasis = feeBasis\<rparr>"

text \<open>
  Modelled from the spec: \<^verbatim>\<open>wkTransferCreateAs__SYMBOL__\<close>, \<^verbatim>\<open>wkTransferSetUids\<close>
  and \<^verbatim>\<open>wkTransferSetState\<close> are not among the sources. A transfer holds the seven
  arguments it is created from, and attributes that are recovered later; a found
  transfer has "its uids and its transfer-state" updated in place.
\<close>

record 'fb WKTransferRecord =
  transfer_listener :: handle
  transfer_uids :: "string option"
  transfer_unit :: handle
  transfer_unitForFee :: handle
  transfer_state :: "'fb WKTransferStateRecord"
  transfer_account :: handle
  transfer_transaction :: "'fb BR_Name_TransactionRecord"
  transfer_attributes :: "(string \<times> string) list"

definition wkTransferCreateAs ::
  "handle \<Rightarrow> string \<Rightarrow> handle \<Rightarrow> handle \<Rightarrow> 'fb WKTransferStateRecord \<Rightarrow> handle
     \<Rightarrow> 'fb BR_Name_TransactionRecord \<Rightarrow> 'fb WKTransferRecord" where
  "wkTransferCreateAs listener uids unit unitForFee state account transaction =
     \<lparr>transfer_listener = listener, transfer_uids = Some uids, transfer_unit = unit,
      transfer_unitForFee = unitForFee, transfer_state = state, transfer_account = account,
      transfer_transaction = transaction, transfer_attributes = []\<rparr>"

definition wkTransferSetUids :: "'fb WKTransferRecord \<Rightarrow> string \<Rightarrow> 'fb WKTransferRecord" where
  "wkTransferSetUids transfer uids = transfer\<lparr>transfer_uids := Some uids\<rparr>"

definition wkTransferSetState ::
  "'fb WKTransferRecord \<Rightarrow> 'fb WKTransferStateRecord \<Rightarrow> 'fb WKTransferRecord" where
  "wkTransferSetState transfer state = transfer\<lparr>transfer_state := state\<rparr>"

text \<open>
  Modelled from the spec: the wallet and the manager are declared in headers that are
  not among the sources, and so are \<^verbatim>\<open>wkWalletManagerGetWallet\<close> and
  \<^verbatim>\<open>wkWalletGetBalance\<close> (the spec's \<open>getBalance()\<close>). A wallet owns its transfers, in
  the order they were added; a transfer of the wallet is referred to by its position.
  The fields are those this file reads.
\<close>

record 'fb WKWalletRecord =
  wallet_listenerTransfer :: handle
  wallet_unit :: handle
  wallet_unitForFee :: handle
  wallet_balance :: WKAmountRecord
  wallet_transfers :: "'fb WKTransferRecord list"

record 'fb WKWalletManagerRecord =
  manager_account :: handle
  manager_wallet :: "'fb WKWalletRecord"

definition wkWalletManagerGetWallet :: "'fb WKWalletManagerRecord \<Rightarrow> 'fb WKWalletRecord" where
  "wkWalletManagerGetWallet manager = manager_wallet manager"

definition wkWalletGetBalance :: "'fb WKWalletRecord \<Rightarrow> WKAmountRecord" where
  "wkWalletGetBalance wallet = wallet_balance wallet"

fun find_first :: "('a \<Rightarrow> bool) \<Rightarrow> 'a list \<Rightarrow> nat option" where
  "find_first P [] = None"
| "find_first P (x # xs) = (if P x then Some 0 else map_option Suc (find_first P xs))"

text \<open>
  Modelled from the spec: \<^verbatim>\<open>wkWalletGetTransferByHashOrUIDS\<close> is not among the
  sources. "Look up an existing transfer by hash or by uids (either match counts as the
  same logical transfer)". How a transfer's hash is read (\<open>TransferGetHash\<close>) is a
  parameter: the template builds a transfer from a transaction that is given no hash.
\<close>

definition transfer_matches ::
  "('fb WKTransferRecord \<Rightarrow> WKHash) \<Rightarrow> WKHash \<Rightarrow> string \<Rightarrow> 'fb WKTransferRecord \<Rightarrow> bool" where
  "transfer_matches TransferGetHash hash uids t =
     ((hash \<noteq> None \<and> TransferGetHash t = hash) \<or> transfer_uids t = Some uids)"

definition wkWalletGetTransferByHashOrUIDS ::
  "('fb WKTransferRecord \<Rightarrow> WKHash) \<Rightarrow> 'fb WKWalletRecord \<Rightarrow> WKHash \<Rightarrow> string \<Rightarrow> nat option" where
  "wkWalletGetTransferByHashOrUIDS TransferGetHash wallet hash uids =
     find_first (transfer_matches TransferGetHash hash uids) (wallet_transfers wallet)"

text \<open>
  Modelled from the spec: \<^verbatim>\<open>wkWalletAddTransfer\<close> is not among the sources.
  "register it with the wallet": the transfer becomes the wallet's last one.
\<close>

definition wkWalletAddTransfer :: "'fb WKWalletRecord \<Rightarrow> 'fb WKTransferRecord \<Rightarrow> 'fb WKWalletRecord" where
  "wkWalletAddTransfer wallet transfer =
     wallet\<lparr>wallet_transfers := wallet_transfers wallet @ [transfer]\<rparr>"

text \<open>
  Modelled from the spec: \<^verbatim>\<open>wkWalletManagerRecoverTransferAttributesFromTransferBundle\<close>
  is not among the sources. It "populates transfer metadata not covered by this core":
  the attributes of the transfer at position \<open>i\<close> become the bundle's.
\<close>

definition wkWalletManagerRecoverTransferAttributesFromTransferBundle ::
  "'fb WKWalletRecord \<Rightarrow> nat \<Rightarrow> WKClientTransferBundleRecord \<Rightarrow> 'fb WKWalletRecord" where
  "wkWalletManagerRecoverTransferAttributesFromTransferBundle wallet i bundle =
     wallet\<lparr>wallet_transfers :=
       (wallet_transfers wallet)[i :=
         (wallet_transfers wallet ! i)\<lparr>transfer_attributes := bundle_attributes bundle\<rparr>]\<rparr>"

subsection \<open>The handlers\<close>

definition wkWalletManagerSignTransactionWithKey ::
  "build \<Rightarrow> 'fb WKWalletManagerRecord \<Rightarrow> 'fb WKWalletRecord \<Rightarrow> 'fb WKTransferRecord \<Rightarrow> handle
     \<Rightarrow> WKBoolean outcome" where
  "wkWalletManagerSignTransactionWithKey b manager wallet transfer key =
     and_then (c_assert b False) (\<lambda>_. Returns WK_FALSE)"

text \<open>
  \<^verbatim>\<open>wkWalletManagerEstimateLimit__SYMBOL__\<close>: the two flags are passed by pointer; the
  model takes what they hold and returns what they hold afterwards. The one assignment
  to \<^verbatim>\<open>*needEstimate\<close> is under \<^verbatim>\<open>#if 0\<close>.
\<close>

definition wkWalletManagerEstimateLimit ::
  "'fb WKWalletManagerRecord \<Rightarrow> 'fb WKWalletRecord \<Rightarrow> WKBoolean \<Rightarrow> BR_Name_Address
     \<Rightarrow> WKNetworkFeeRecord \<Rightarrow> 'f \<Rightarrow> 'f \<Rightarrow> handle \<Rightarrow> WKAmountRecord \<times> 'f \<times> 'f" where
  "wkWalletManagerEstimateLimit manager wallet asMaximum target networkFee
       needEstimate isZeroIfInsuffientFunds unit =
     ((if WK_TRUE = asMaximum then wkWalletGetBalance wallet
       else wkAmountCreateInteger 0 unit),
      needEstimate, isZeroIfInsuffientFunds)"

text \<open>
  \<^verbatim>\<open>wkWalletManagerRecoverTransfersFromTransactionBundle__SYMBOL__\<close> returns
  \<^verbatim>\<open>void\<close>.
\<close>

definition wkWalletManagerRecoverTransfersFromTransactionBundle ::
  "build \<Rightarrow> 'fb WKWalletManagerRecord \<Rightarrow> 'tb \<Rightarrow> unit outcome" where
  "wkWalletManagerRecoverTransfersFromTransactionBundle b manager bundle =
     and_then (c_assert b False) (\<lambda>_. Returns ())"

text \<open>
  \<^verbatim>\<open>wkWalletManagerRecoverTransferFromTransferBundle__SYMBOL__\<close>. The parameters
  stand for what is not among the sources: \<open>FeeBasisCreate\<close> for
  \<^verbatim>\<open>__name__FeeBasisCreate ()\<close>, \<open>HashCreateFromString\<close> for
  \<^verbatim>\<open>wkHashCreateFromStringAs__SYMBOL__\<close>, \<open>TransferGetHash\<close> for the hash the wallet's
  lookup reads. \<^verbatim>\<open>__symbol__Fee\<close> is scanned and not used again; the wrapped addresses
  \<^verbatim>\<open>source\<close> and \<^verbatim>\<open>target\<close> are only released. The result is the manager with its
  wallet as the call leaves it.
\<close>

definition wkWalletManagerRecoverTransferFromTransferBundle ::
  "build \<Rightarrow> 'fb \<Rightarrow> (string \<Rightarrow> WKHash) \<Rightarrow> ('fb WKTransferRecord \<Rightarrow> WKHash)
     \<Rightarrow> 'fb WKWalletManagerRecord \<Rightarrow> WKClientTransferBundleRecord
     \<Rightarrow> 'fb WKWalletManagerRecord outcome" where
  "wkWalletManagerRecoverTransferFromTransferBundle b FeeBasisCreate HashCreateFromString
       TransferGetHash manager bundle =
     (let wallet = wkWalletManagerGetWallet manager;
          symbolAccount = manager_account manager
      in
      and_then (scan_into None (bundle_amount bundle)) (\<lambda>symbolAmount.
      and_then (case bundle_fee bundle of
                  None \<Rightarrow> Returns (Some 0)
                | Some fee \<Rightarrow> scan_into (Some 0) fee) (\<lambda>symbolFee.
      and_then (name_AddressCreateFromString b (bundle_to bundle) False) (\<lambda>symbolTarget.
      and_then (name_AddressCreateFromString b (bundle_from bundle) False) (\<lambda>symbolSource.
        let hash = HashCreateFromString (bundle_hash bundle);
            transfer = wkWalletGetTransferByHashOrUIDS TransferGetHash wallet hash
                         (bundle_uids bundle);
            symbolFeeBasis = FeeBasisCreate;
            feeBasis = wkFeeBasisCreateAs (wallet_unitForFee wallet) symbolFeeBasis;
            state = wkClientTransferBundleGetTransferState bundle feeBasis;
            i = (case transfer of Some i \<Rightarrow> i | None \<Rightarrow> length (wallet_transfers wallet));
            wallet1 =
              (case transfer of
                 Some i \<Rightarrow>
                   wallet\<lparr>wallet_transfers :=
                     (wallet_transfers wallet)[i :=
                       wkTransferSetState
                         (wkTransferSetUids (wallet_transfers wallet ! i) (bundle_uids bundle))
                         state]\<rparr>
               | None \<Rightarrow>
                   wkWalletAddTransfer wallet
                     (wkTransferCreateAs (wallet_listenerTransfer wallet) (bundle_uids bundle)
                        (wallet_unit wallet) (wallet_unitForFee wallet) state symbolAccount
                        (name_TransactionCreate symbolSource symbolTarget symbolAmount
                           symbolFeeBasis)));
            wallet2 = wkWalletManagerRecoverTransferAttributesFromTransferBundle wallet1 i bundle
        in Returns (manager\<lparr>manager_wallet := wallet2\<rparr>))))))"

text \<open>
  \<^verbatim>\<open>wkWalletManagerRecoverFeeBasisFromFeeEstimate__SYMBOL__\<close>: the parsing of the
  attributes is under \<^verbatim>\<open>#if 0\<close>. A fee basis is returned by pointer: \<open>None\<close> would be
  \<^verbatim>\<open>NULL\<close>.
\<close>

definition wkWalletManagerRecoverFeeBasisFromFeeEstimate ::
  "'fb \<Rightarrow> 'fb WKWalletManagerRecord \<Rightarrow> 'fb WKTransferRecord \<Rightarrow> WKNetworkFeeRecord \<Rightarrow> 'd
     \<Rightarrow> nat \<Rightarrow> string list \<Rightarrow> string list \<Rightarrow> 'fb WKFeeBasisRecord option" where
  "wkWalletManagerRecoverFeeBasisFromFeeEstimate FeeBasisCreate cwm transfer networkFee
       costUnits attributesCount attributeKeys attributeVals =
     (let symbolFeeBasis = FeeBasisCreate
      in Some (wkFeeBasisCreateAs (pricePerCostFactorUnit networkFee) symbolFeeBasis))"

definition wkWalletManagerWalletSweeperValidateSupported ::
  "'fb WKWalletManagerRecord \<Rightarrow> 'fb WKWalletRecord \<Rightarrow> handle \<Rightarrow> WKWalletSweeperStatus" where
  "wkWalletManagerWalletSweeperValidateSupported manager wallet key =
     WK_WALLET_SWEEPER_UNSUPPORTED_CURRENCY"

text \<open>\<^verbatim>\<open>wkWalletManagerCreateWalletSweeper__SYMBOL__\<close> returns \<^verbatim>\<open>NULL\<close>.\<close>

definition wkWalletManagerCreateWalletSweeper ::
  "'fb WKWalletManagerRecord \<Rightarrow> 'fb WKWalletRecord \<Rightarrow> handle \<Rightarrow> handle option" where
  "wkWalletManagerCreateWalletSweeper manager wallet key = None"

section \<open>Concrete inputs\<close>

text \<open>
  Two builds: one with assertions compiled in, where \<^verbatim>\<open>ASSERT_UNIMPLEMENTED\<close> stops
  the process, and one with \<^verbatim>\<open>NDEBUG\<close> defined, where it does nothing.
\<close>

definition debug_build :: build where
  "debug_build = \<lparr>NDEBUG = False, ASSERT_UNIMPLEMENTED = AssertionFailed\<rparr>"


text \<open>
  Stand-ins, for the concrete inputs only, for the two functions that are parameters of
  the reconciler: a hash decoder that rejects the empty text and takes the bytes of any
  other text as the digest, and transfers that carry no hash.
\<close>

definition example_HashCreateFromString :: "string \<Rightarrow> WKHash" where
  "example_HashCreateFromString s =
     (if s = [] then None else Some \<lparr>hash_bytes = map (\<lambda>c. word_of_nat (of_char c)) s\<rparr>)"

definition example_TransferGetHash :: "nat WKTransferRecord \<Rightarrow> WKHash" where
  "example_TransferGetHash t = None"

definition example_wallet :: "nat WKWalletRecord" where
  "example_wallet =
     \<lparr>wallet_listenerTransfer = 1, wallet_unit = 2, wallet_unitForFee = 3,
      wallet_balance = \<lparr>amount_value = 5000, amount_unit = 2\<rparr>, wallet_transfers = []\<rparr>"

definition example_manager :: "nat WKWalletManagerRecord" where
  "example_manager = \<lparr>manager_account = 4, manager_wallet = example_wallet\<rparr>"

text \<open>
  The bundle of the spec's end-to-end example: hash \<open>0xabc\<close>, uids \<open>u1\<close>, from and to
  \<open>unknown\<close>, amount \<open>0\<close>, status \<open>confirmed\<close>.
\<close>

definition example_bundle :: WKClientTransferBundleRecord where
  "example_bundle =
     \<lparr>bundle_status = ''confirmed'', bundle_uids = ''u1'', bundle_hash = ''0xabc'',
      bundle_from = Some ''unknown'', bundle_to = Some ''unknown'', bundle_amount = ''0'',
      bundle_fee = None, bundle_attributes = []\<rparr>"

text \<open>The transfer that the reconciler builds from that bundle, and the manager then.\<close>

definition example_transfer :: "nat WKTransferRecord" where
  "example_transfer =
     \<lparr>transfer_listener = 1, transfer_uids = Some ''u1'', transfer_unit = 2,
      transfer_unitForFee = 3,
      transfer_state =
        \<lparr>state_status = ''confirmed'',
         state_feeBasis = \<lparr>feeBasis_unit = 3, feeBasis_basis = 0\<rparr>\<rparr>,
      transfer_account = 4,
      transfer_transaction =
        \<lparr>transaction_source = Some \<lparr>bytes = [0]\<rparr>, transaction_target = Some \<lparr>bytes = [0]\<rparr>,
         transaction_amount = Some 0, transaction_feeBasis = 0\<rparr>,
      transfer_attributes = []\<rparr>"

definition example_manager_after :: "nat WKWalletManagerRecord" where
  "example_manager_after =
     example_manager\<lparr>manager_wallet := example_wallet\<lparr>wallet_transfers := [example_transfer]\<rparr>\<rparr>"



definition example_networkFee :: WKNetworkFeeRecord where
  "example_networkFee = \<lparr>pricePerCostFactor = 7, pricePerCostFactorUnit = 3\<rparr>"

text \<open>
  A second stand-in for the hash a transfer carries: a function of the transaction's
  content (here the low byte of its amount), as the hash of a transaction is. With it
  the three bundles below are applied in turn, the last one twice: \<open>bundle_C\<close> has the
  hash of \<open>bundle_A\<close> and the uids of \<open>bundle_B\<close>.
\<close>

definition amount_TransferGetHash :: "nat WKTransferRecord \<Rightarrow> WKHash" where
  "amount_TransferGetHash t =
     (case transaction_amount (transfer_transaction t) of
        None \<Rightarrow> None
      | Some v \<Rightarrow> Some \<lparr>hash_bytes = [word_of_nat (unat v)]\<rparr>)"

definition bundle_A :: WKClientTransferBundleRecord where
  "bundle_A = example_bundle\<lparr>bundle_uids := ''a'', bundle_hash := ''A'', bundle_amount := ''65''\<rparr>"

definition bundle_B :: WKClientTransferBundleRecord where
  "bundle_B = example_bundle\<lparr>bundle_uids := ''b'', bundle_hash := ''B'', bundle_amount := ''66''\<rparr>"

definition bundle_C :: WKClientTransferBundleRecord where
  "bundle_C = example_bundle\<lparr>bundle_uids := ''b'', bundle_hash := ''A'', bundle_amount := ''65''\<rparr>"

definition transfer_A :: "nat WKTransferRecord" where
  "transfer_A =
     example_transfer\<lparr>transfer_uids := Some ''b'',
       transfer_transaction :=
         (transfer_transaction example_transfer)\<lparr>transaction_amount := Some 65\<rparr>\<rparr>"

definition transfer_B :: "nat WKTransferRecord" where
  "transfer_B =
     example_transfer\<lparr>transfer_uids := Some ''b'',
       transfer_transaction :=
         (transfer_transaction example_transfer)\<lparr>transaction_amount := Some 66\<rparr>\<rparr>"

definition manager_ABC :: "nat WKWalletManagerRecord" where
  "manager_ABC =
     example_manager\<lparr>manager_wallet :=
       example_wallet\<lparr>wallet_transfers := [transfer_A, transfer_B]\<rparr>\<rparr>"

text \<open>
  A later bundle for the transfer of the spec's example: same hash and uids, another
  status and an attribute; and the manager after it.
\<close>

definition later_bundle :: WKClientTransferBundleRecord where
  "later_bundle =
     example_bundle\<lparr>bundle_status := ''failed'', bundle_attributes := [(''k'', ''v'')]\<rparr>"

definition later_transfer :: "nat WKTransferRecord" where
  "later_transfer =
     example_transfer\<lparr>
       transfer_state :=
         \<lparr>state_status = ''failed'',
          state_feeBasis = \<lparr>feeBasis_unit = 3, feeBasis_basis = 0\<rparr>\<rparr>,
       transfer_attributes := [(''k'', ''v'')]\<rparr>"

definition later_manager :: "nat WKWalletManagerRecord" where
  "later_manager =
     example_manager\<lparr>manager_wallet := example_wallet\<lparr>wallet_transfers := [later_transfer]\<rparr>\<rparr>"

section \<open>Facts about the library functions and the sentinels\<close>

lemma and_then_Returns_iff:
  "and_then x f = Returns y \<longleftrightarrow> (\<exists>v. x = Returns v \<and> f v = Returns y)"
  by (cases x) auto

lemma strcmp_eq_0: "strcmp s t = 0 \<longleftrightarrow> s = t"
  by (induction s t rule: strcmp.induct) auto

lemma cmp_bytes_eq_0: "length xs = length ys \<Longrightarrow> cmp_bytes xs ys = 0 \<longleftrightarrow> xs = ys"
  by (induction xs ys rule: cmp_bytes.induct) auto

lemma sentinel_bytes_length:
  "length feeAddressBytes = NAME_ADDRESS_BYTES \<and> length unknownAddressBytes = NAME_ADDRESS_BYTES"
  by (simp add: feeAddressBytes_def unknownAddressBytes_def NAME_ADDRESS_BYTES_def)

lemma fee_address_value: "name_AddressCreateFeeAddress = Some \<lparr>bytes = [0]\<rparr>"
  by (simp add: name_AddressCreateFeeAddress_def memcpy_def calloc_bytes_def
      feeAddressBytes_def NAME_ADDRESS_BYTES_def)

lemma unknown_address_value: "name_AddressCreateUnknownAddress = Some \<lparr>bytes = [0]\<rparr>"
  by (simp add: name_AddressCreateUnknownAddress_def memcpy_def calloc_bytes_def
      unknownAddressBytes_def NAME_ADDRESS_BYTES_def)

lemma is_fee_is_unknown: "name_AddressIsFeeAddress b a = name_AddressIsUnknownAddress b a"
  by (cases a)
    (simp_all add: name_AddressIsFeeAddress_def name_AddressIsUnknownAddress_def
      feeAddressBytes_def unknownAddressBytes_def)

lemma is_fee_sentinel: "name_AddressIsFeeAddress b (Some \<lparr>bytes = [0]\<rparr>) = Returns True"
  by (simp add: name_AddressIsFeeAddress_def c_assert_def memcmp_def feeAddressBytes_def
      NAME_ADDRESS_BYTES_def)

subsection \<open>The first position that satisfies a predicate\<close>

lemma find_first_Some:
  "find_first P xs = Some i \<Longrightarrow> i < length xs \<and> P (xs ! i) \<and> (\<forall>j<i. \<not> P (xs ! j))"
proof (induction xs arbitrary: i)
  case Nil
  then show ?case by simp
next
  case (Cons x xs)
  show ?case
  proof (cases "P x")
    case True
    with Cons.prems show ?thesis by simp
  next
    case False
    with Cons.prems obtain k where k: "find_first P xs = Some k" "i = Suc k"
      by auto
    from Cons.IH [OF k(1)] False k(2) show ?thesis
      by (auto simp: nth_Cons less_Suc_eq_0_disj split: nat.splits)
  qed
qed

lemma find_first_None: "find_first P xs = None \<longleftrightarrow> (\<forall>x\<in>set xs. \<not> P x)"
  by (induction xs) auto

lemma find_first_eqI:
  "i < length xs \<Longrightarrow> P (xs ! i) \<Longrightarrow> (\<forall>j<i. \<not> P (xs ! j)) \<Longrightarrow> find_first P xs = Some i"
proof (induction xs arbitrary: i)
  case Nil
  then show ?case by simp
next
  case (Cons x xs)
  show ?case
  proof (cases i)
    case 0
    with Cons.prems show ?thesis by simp
  next
    case (Suc k)
    from Cons.prems Suc have nx: "\<not> P x" by auto
    from Cons.prems Suc have "k < length xs" "P (xs ! k)" "\<forall>j<k. \<not> P (xs ! j)"
      by auto
    from Cons.IH [OF this] nx Suc show ?thesis by simp
  qed
qed

lemma find_first_append_new:
  "find_first P xs = None \<Longrightarrow> P t \<Longrightarrow> find_first P (xs @ [t]) = Some (length xs)"
  by (rule find_first_eqI) (auto simp: find_first_None nth_append)

lemma find_first_update_same:
  "find_first P xs = Some i \<Longrightarrow> P t \<Longrightarrow> find_first P (xs[i := t]) = Some i"
  by (rule find_first_eqI) (auto dest!: find_first_Some)

lemma filter_matches_append_new:
  "find_first P xs = None \<Longrightarrow> P t \<Longrightarrow> filter P (xs @ [t]) = [t]"
  by (simp add: find_first_None)

subsection \<open>The concrete inputs, evaluated\<close>

lemma scan_zero: "scan_into None ''0'' = Returns (Some 0)"
  by (simp add: scan_into_def sscanf_PRIu64_def isspace_def isdigit_def decimal_value_def)



lemma decode_unknown_token:
  "name_AddressCreateFromString b (Some ''unknown'') False = Returns (Some \<lparr>bytes = [0]\<rparr>)"
  by (simp add: name_AddressCreateFromString_def strlen_def unknown_address_value)



lemma example_first:
  "wkWalletManagerRecoverTransferFromTransferBundle debug_build 0 example_HashCreateFromString
     example_TransferGetHash example_manager example_bundle = Returns example_manager_after"
  by (simp add: wkWalletManagerRecoverTransferFromTransferBundle_def example_bundle_def
      scan_zero decode_unknown_token Let_def wkWalletManagerGetWallet_def
      wkWalletGetTransferByHashOrUIDS_def example_manager_def example_wallet_def
      wkWalletAddTransfer_def wkTransferCreateAs_def name_TransactionCreate_def
      wkClientTransferBundleGetTransferState_def wkFeeBasisCreateAs_def
      wkWalletManagerRecoverTransferAttributesFromTransferBundle_def
      example_manager_after_def example_transfer_def)



lemma decode_tz1_debug:
  "name_AddressCreateFromString debug_build (Some ''tz1abc'') False = AssertionFailed"
  by (simp add: name_AddressCreateFromString_def strlen_def name_AddressStringToAddress_def
      debug_build_def)




subsection \<open>What the decoder accepts, and when the reconciler returns\<close>

lemma decode_Some_only_sentinel_texts:
  assumes "name_AddressCreateFromString b s strict = Returns (Some a)"
  shows "\<not> strict \<and> (s = None \<or> s = Some '''' \<or> s = Some ''unknown'' \<or> s = Some ''__fee__'')"
proof (cases s)
  case None
  with assms show ?thesis
    by (simp add: name_AddressCreateFromString_def split: if_splits)
next
  case (Some t)
  have stub: "name_AddressStringToAddress b t \<noteq> Returns (Some a)"
    by (cases "ASSERT_UNIMPLEMENTED b") (simp_all add: name_AddressStringToAddress_def)
  from assms Some stub show ?thesis
    by (auto simp: name_AddressCreateFromString_def strlen_def strcmp_eq_0 split: if_splits)
qed


text \<open>
  The reconciler returns exactly when the two scans fit 64 bits and the two address
  decodings return; where \<^verbatim>\<open>ASSERT_UNIMPLEMENTED\<close> returns, every decoding does.
\<close>

lemma scan_into_Returns_iff:
  "(\<exists>v. scan_into old s = Returns v) \<longleftrightarrow> sscanf_PRIu64 s \<noteq> Unrepresentable"
  by (cases "sscanf_PRIu64 s") (simp_all add: scan_into_def)

lemma reconciler_returns_iff:
  "(\<exists>m1. wkWalletManagerRecoverTransferFromTransferBundle b fb hc gh m bundle = Returns m1)
   \<longleftrightarrow>
     sscanf_PRIu64 (bundle_amount bundle) \<noteq> Unrepresentable
     \<and> (case bundle_fee bundle of None \<Rightarrow> True | Some fee \<Rightarrow> sscanf_PRIu64 fee \<noteq> Unrepresentable)
     \<and> (\<exists>tgt. name_AddressCreateFromString b (bundle_to bundle) False = Returns tgt)
     \<and> (\<exists>src. name_AddressCreateFromString b (bundle_from bundle) False = Returns src)"
proof -
  have amount: "(\<exists>v. scan_into None (bundle_amount bundle) = Returns v)
      \<longleftrightarrow> sscanf_PRIu64 (bundle_amount bundle) \<noteq> Unrepresentable"
    by (rule scan_into_Returns_iff)
  have fee: "(\<exists>v. (case bundle_fee bundle of None \<Rightarrow> Returns (Some 0)
                    | Some f \<Rightarrow> scan_into (Some 0) f) = Returns v)
      \<longleftrightarrow> (case bundle_fee bundle of None \<Rightarrow> True | Some fee \<Rightarrow> sscanf_PRIu64 fee \<noteq> Unrepresentable)"
    by (cases "bundle_fee bundle") (simp_all add: scan_into_Returns_iff)
  have "(\<exists>m1. wkWalletManagerRecoverTransferFromTransferBundle b fb hc gh m bundle = Returns m1)
   \<longleftrightarrow>
     (\<exists>v. scan_into None (bundle_amount bundle) = Returns v)
     \<and> (\<exists>v. (case bundle_fee bundle of None \<Rightarrow> Returns (Some 0)
                    | Some f \<Rightarrow> scan_into (Some 0) f) = Returns v)
     \<and> (\<exists>tgt. name_AddressCreateFromString b (bundle_to bundle) False = Returns tgt)
     \<and> (\<exists>src. name_AddressCreateFromString b (bundle_from bundle) False = Returns src)"
    by (auto simp: wkWalletManagerRecoverTransferFromTransferBundle_def and_then_Returns_iff
        Let_def)
  then show ?thesis
    by (simp only: amount fee)
qed

lemma decode_returns_where_macro_returns:
  "ASSERT_UNIMPLEMENTED b = Returns () \<Longrightarrow> \<exists>a. name_AddressCreateFromString b s strict = Returns a"
  by (cases s) (simp_all add: name_AddressCreateFromString_def name_AddressStringToAddress_def)

subsection \<open>Applying a bundle to the result of applying it\<close>

text \<open>
  Where an application of a bundle returns, applying the bundle to the result finds a
  transfer and returns the result unchanged.
\<close>

lemma reconciler_fixpoint:
  assumes first:
    "wkWalletManagerRecoverTransferFromTransferBundle b fb hc gh m bundle = Returns m1"
  shows
    "wkWalletManagerRecoverTransferFromTransferBundle b fb hc gh m1 bundle = Returns m1
     \<and> (\<exists>i. wkWalletGetTransferByHashOrUIDS gh (manager_wallet m1) (hc (bundle_hash bundle))
               (bundle_uids bundle) = Some i)
     \<and> (case wkWalletGetTransferByHashOrUIDS gh (manager_wallet m) (hc (bundle_hash bundle))
               (bundle_uids bundle) of
          None \<Rightarrow>
            (\<exists>t. wallet_transfers (manager_wallet m1) = wallet_transfers (manager_wallet m) @ [t]
               \<and> transfer_uids t = Some (bundle_uids bundle)
               \<and> filter (transfer_matches gh (hc (bundle_hash bundle)) (bundle_uids bundle))
                    (wallet_transfers (manager_wallet m1)) = [t])
        | Some i \<Rightarrow>
            length (wallet_transfers (manager_wallet m1)) = length (wallet_transfers (manager_wallet m))
            \<and> transfer_uids (wallet_transfers (manager_wallet m1) ! i) = Some (bundle_uids bundle))"
proof (cases "wkWalletGetTransferByHashOrUIDS gh (manager_wallet m) (hc (bundle_hash bundle))
               (bundle_uids bundle)")
  case None
  let ?P = "transfer_matches gh (hc (bundle_hash bundle)) (bundle_uids bundle)"
  from None have nf: "find_first ?P (wallet_transfers (manager_wallet m)) = None"
    by (simp add: wkWalletGetTransferByHashOrUIDS_def)
  from first None obtain amt fee tgt src where
    scans: "scan_into None (bundle_amount bundle) = Returns amt"
      "(case bundle_fee bundle of None \<Rightarrow> Returns (Some 0) | Some f \<Rightarrow> scan_into (Some 0) f) = Returns fee"
      "name_AddressCreateFromString b (bundle_to bundle) False = Returns tgt"
      "name_AddressCreateFromString b (bundle_from bundle) False = Returns src"
    and m1: "m1 = m\<lparr>manager_wallet := (manager_wallet m)\<lparr>wallet_transfers :=
        wallet_transfers (manager_wallet m) @
          [(wkTransferCreateAs (wallet_listenerTransfer (manager_wallet m)) (bundle_uids bundle)
              (wallet_unit (manager_wallet m)) (wallet_unitForFee (manager_wallet m))
              (wkClientTransferBundleGetTransferState bundle
                 (wkFeeBasisCreateAs (wallet_unitForFee (manager_wallet m)) fb))
              (manager_account m) (name_TransactionCreate src tgt amt fb))
            \<lparr>transfer_attributes := bundle_attributes bundle\<rparr>]\<rparr>\<rparr>"
    by (auto simp: wkWalletManagerRecoverTransferFromTransferBundle_def and_then_Returns_iff
        Let_def wkWalletManagerGetWallet_def wkWalletAddTransfer_def
        wkWalletManagerRecoverTransferAttributesFromTransferBundle_def)
  let ?t = "(wkTransferCreateAs (wallet_listenerTransfer (manager_wallet m)) (bundle_uids bundle)
              (wallet_unit (manager_wallet m)) (wallet_unitForFee (manager_wallet m))
              (wkClientTransferBundleGetTransferState bundle
                 (wkFeeBasisCreateAs (wallet_unitForFee (manager_wallet m)) fb))
              (manager_account m) (name_TransactionCreate src tgt amt fb))
            \<lparr>transfer_attributes := bundle_attributes bundle\<rparr>"
  have Pt: "?P ?t"
    by (simp add: transfer_matches_def wkTransferCreateAs_def)
  have found: "wkWalletGetTransferByHashOrUIDS gh (manager_wallet m1) (hc (bundle_hash bundle))
      (bundle_uids bundle) = Some (length (wallet_transfers (manager_wallet m)))"
    using find_first_append_new [OF nf Pt] by (simp add: m1 wkWalletGetTransferByHashOrUIDS_def)
  have again: "wkWalletManagerRecoverTransferFromTransferBundle b fb hc gh m1 bundle = Returns m1"
    using scans found
    by (simp add: wkWalletManagerRecoverTransferFromTransferBundle_def Let_def
        wkWalletManagerGetWallet_def wkWalletManagerRecoverTransferAttributesFromTransferBundle_def)
      (simp add: m1 wkTransferSetState_def wkTransferSetUids_def wkTransferCreateAs_def)
  have "filter ?P (wallet_transfers (manager_wallet m1)) = [?t]"
    using filter_matches_append_new [OF nf Pt] by (simp add: m1)
  moreover have "transfer_uids ?t = Some (bundle_uids bundle)"
    by (simp add: wkTransferCreateAs_def)
  moreover have "wallet_transfers (manager_wallet m1) = wallet_transfers (manager_wallet m) @ [?t]"
    by (simp add: m1)
  ultimately show ?thesis using again found None by simp
next
  case (Some i)
  let ?P = "transfer_matches gh (hc (bundle_hash bundle)) (bundle_uids bundle)"
  let ?xs = "wallet_transfers (manager_wallet m)"
  let ?st = "wkClientTransferBundleGetTransferState bundle
                 (wkFeeBasisCreateAs (wallet_unitForFee (manager_wallet m)) fb)"
  let ?t = "(?xs ! i)\<lparr>transfer_uids := Some (bundle_uids bundle), transfer_state := ?st,
               transfer_attributes := bundle_attributes bundle\<rparr>"
  from Some have f: "find_first ?P ?xs = Some i"
    by (simp add: wkWalletGetTransferByHashOrUIDS_def)
  from find_first_Some [OF f] have i: "i < length ?xs" by simp
  from first Some i obtain amt fee tgt src where
    scans: "scan_into None (bundle_amount bundle) = Returns amt"
      "(case bundle_fee bundle of None \<Rightarrow> Returns (Some 0) | Some f \<Rightarrow> scan_into (Some 0) f) = Returns fee"
      "name_AddressCreateFromString b (bundle_to bundle) False = Returns tgt"
      "name_AddressCreateFromString b (bundle_from bundle) False = Returns src"
    and m1: "m1 = m\<lparr>manager_wallet := (manager_wallet m)\<lparr>wallet_transfers := ?xs[i := ?t]\<rparr>\<rparr>"
    by (auto simp: wkWalletManagerRecoverTransferFromTransferBundle_def and_then_Returns_iff
        Let_def wkWalletManagerGetWallet_def wkTransferSetState_def wkTransferSetUids_def
        wkWalletManagerRecoverTransferAttributesFromTransferBundle_def)
  have Pt: "?P ?t"
    by (simp add: transfer_matches_def)
  have found: "wkWalletGetTransferByHashOrUIDS gh (manager_wallet m1) (hc (bundle_hash bundle))
      (bundle_uids bundle) = Some i"
    using find_first_update_same [OF f Pt] by (simp add: m1 wkWalletGetTransferByHashOrUIDS_def)
  have again: "wkWalletManagerRecoverTransferFromTransferBundle b fb hc gh m1 bundle = Returns m1"
    using scans found i
    by (simp add: wkWalletManagerRecoverTransferFromTransferBundle_def Let_def
        wkWalletManagerGetWallet_def wkWalletManagerRecoverTransferAttributesFromTransferBundle_def)
      (simp add: m1 wkTransferSetState_def wkTransferSetUids_def)
  show ?thesis using again found Some i by (simp add: m1)
qed

subsection \<open>Further concrete inputs, evaluated\<close>

lemma scan_0_value: "sscanf_PRIu64 ''0'' = Converted 0"
  by (simp add: sscanf_PRIu64_def isspace_def isdigit_def decimal_value_def)

lemma scan_65: "scan_into None ''65'' = Returns (Some 65)"
  by (simp add: scan_into_def sscanf_PRIu64_def isspace_def isdigit_def decimal_value_def)

lemma scan_66: "scan_into None ''66'' = Returns (Some 66)"
  by (simp add: scan_into_def sscanf_PRIu64_def isspace_def isdigit_def decimal_value_def)

lemma later_first:
  "wkWalletManagerRecoverTransferFromTransferBundle debug_build 0 example_HashCreateFromString
     example_TransferGetHash example_manager_after later_bundle = Returns later_manager"
  by (simp add: wkWalletManagerRecoverTransferFromTransferBundle_def later_bundle_def
      example_bundle_def scan_zero decode_unknown_token Let_def wkWalletManagerGetWallet_def
      wkWalletGetTransferByHashOrUIDS_def transfer_matches_def example_manager_after_def
      example_manager_def example_wallet_def wkTransferSetState_def wkTransferSetUids_def
      wkClientTransferBundleGetTransferState_def wkFeeBasisCreateAs_def
      wkWalletManagerRecoverTransferAttributesFromTransferBundle_def
      later_manager_def later_transfer_def example_transfer_def)

text \<open>The bundles A, B and C in turn, and C once more.\<close>

lemma apply_A:
  "wkWalletManagerRecoverTransferFromTransferBundle debug_build 0 example_HashCreateFromString
     amount_TransferGetHash example_manager bundle_A
   = Returns (example_manager\<lparr>manager_wallet := example_wallet\<lparr>wallet_transfers :=
       [transfer_A\<lparr>transfer_uids := Some ''a''\<rparr>]\<rparr>\<rparr>)"
  by (simp add: wkWalletManagerRecoverTransferFromTransferBundle_def bundle_A_def
      example_bundle_def scan_65 decode_unknown_token Let_def wkWalletManagerGetWallet_def
      wkWalletGetTransferByHashOrUIDS_def example_manager_def example_wallet_def
      wkWalletAddTransfer_def wkTransferCreateAs_def name_TransactionCreate_def
      wkClientTransferBundleGetTransferState_def wkFeeBasisCreateAs_def
      wkWalletManagerRecoverTransferAttributesFromTransferBundle_def
      transfer_A_def example_transfer_def)

lemma apply_B:
  "wkWalletManagerRecoverTransferFromTransferBundle debug_build 0 example_HashCreateFromString
     amount_TransferGetHash
     (example_manager\<lparr>manager_wallet := example_wallet\<lparr>wallet_transfers :=
       [transfer_A\<lparr>transfer_uids := Some ''a''\<rparr>]\<rparr>\<rparr>) bundle_B
   = Returns (example_manager\<lparr>manager_wallet := example_wallet\<lparr>wallet_transfers :=
       [transfer_A\<lparr>transfer_uids := Some ''a''\<rparr>, transfer_B]\<rparr>\<rparr>)"
  by (simp add: wkWalletManagerRecoverTransferFromTransferBundle_def bundle_B_def
      example_bundle_def scan_66 decode_unknown_token Let_def wkWalletManagerGetWallet_def
      wkWalletGetTransferByHashOrUIDS_def transfer_matches_def amount_TransferGetHash_def
      example_HashCreateFromString_def example_manager_def example_wallet_def
      wkWalletAddTransfer_def wkTransferCreateAs_def name_TransactionCreate_def
      wkClientTransferBundleGetTransferState_def wkFeeBasisCreateAs_def
      wkWalletManagerRecoverTransferAttributesFromTransferBundle_def
      transfer_A_def transfer_B_def example_transfer_def)

lemma apply_C:
  "wkWalletManagerRecoverTransferFromTransferBundle debug_build 0 example_HashCreateFromString
     amount_TransferGetHash
     (example_manager\<lparr>manager_wallet := example_wallet\<lparr>wallet_transfers :=
       [transfer_A\<lparr>transfer_uids := Some ''a''\<rparr>, transfer_B]\<rparr>\<rparr>) bundle_C
   = Returns manager_ABC"
  by (simp add: wkWalletManagerRecoverTransferFromTransferBundle_def bundle_C_def
      example_bundle_def scan_65 decode_unknown_token Let_def wkWalletManagerGetWallet_def
      wkWalletGetTransferByHashOrUIDS_def transfer_matches_def amount_TransferGetHash_def
      example_HashCreateFromString_def example_manager_def example_wallet_def
      wkTransferSetState_def wkTransferSetUids_def
      wkClientTransferBundleGetTransferState_def wkFeeBasisCreateAs_def
      wkWalletManagerRecoverTransferAttributesFromTransferBundle_def
      manager_ABC_def transfer_A_def transfer_B_def example_transfer_def)

lemma apply_C_again:
  "wkWalletManagerRecoverTransferFromTransferBundle debug_build 0 example_HashCreateFromString
     amount_TransferGetHash manager_ABC bundle_C = Returns manager_ABC"
  by (rule reconciler_fixpoint [OF apply_C, THEN conjunct1])

section \<open>The address codec\<close>

text \<open>
  C9. The fee-sink sentinel and the unknown sentinel are the same address value: the
  addresses made by \<^verbatim>\<open>__name__AddressCreateFeeAddress\<close> and
  \<^verbatim>\<open>__name__AddressCreateUnknownAddress\<close> compare equal under
  \<^verbatim>\<open>__name__AddressEqual\<close>, and on every address (also the null pointer, on every
  build) the fee test and the unknown test have the same outcome, so one returns true
  exactly when the other does.
\<close>

theorem sentinels_coincide:
  "name_AddressEqual name_AddressCreateFeeAddress name_AddressCreateUnknownAddress = Returns True
   \<and> name_AddressIsFeeAddress b a = name_AddressIsUnknownAddress b a
   \<and> ((name_AddressIsFeeAddress b a = Returns True)
        = (name_AddressIsUnknownAddress b a = Returns True))"
  by (simp add: is_fee_is_unknown fee_address_value unknown_address_value name_AddressEqual_def
      memcmp_def NAME_ADDRESS_BYTES_def)

text \<open>
  C4. Decoding the null or the empty address string: in non-strict mode the call
  returns the unknown sentinel (an address that the unknown test accepts), in strict
  mode it returns the null pointer; on every build, with no assertion on the way.
\<close>

theorem decode_empty_input:
  "name_AddressCreateFromString b None False = Returns name_AddressCreateUnknownAddress
   \<and> name_AddressCreateFromString b (Some '''') False = Returns name_AddressCreateUnknownAddress
   \<and> name_AddressCreateFromString b None True = Returns None
   \<and> name_AddressCreateFromString b (Some '''') True = Returns None
   \<and> name_AddressIsUnknownAddress b name_AddressCreateUnknownAddress = Returns True"
  by (simp add: name_AddressCreateFromString_def strlen_def unknown_address_value
      is_fee_is_unknown [symmetric] is_fee_sentinel)

text \<open>
  C3. Sentinel stability asks that the unknown address is encoded as the token
  \<open>unknown\<close>. The encoder tests for the fee address first, and both sentinels have the
  same bytes: the unknown address is encoded as \<open>__fee__\<close>, and the branch that
  would produce \<open>unknown\<close> is never taken.
\<close>

theorem unknown_encodes_as_fee:
  "name_AddressAsString b name_AddressCreateUnknownAddress = Returns (Some ''__fee__'')
   \<and> name_AddressAsString b name_AddressCreateUnknownAddress \<noteq> Returns (Some ''unknown'')"
  by (simp add: name_AddressAsString_def unknown_address_value is_fee_sentinel c_assert_def
      strdup_def)

text \<open>
  C5, the claim as stated: two distinct texts that both decode never give the same
  bytes. It fails: in non-strict mode the empty text and the text \<open>unknown\<close> both
  decode to the unknown sentinel, by the decoder's first test.
\<close>

theorem decode_not_injective_counterexample:
  "'''' \<noteq> ''unknown''
   \<and> name_AddressCreateFromString debug_build (Some '''') False = Returns (Some \<lparr>bytes = [0]\<rparr>)
   \<and> name_AddressCreateFromString debug_build (Some ''unknown'') False = Returns (Some \<lparr>bytes = [0]\<rparr>)"
  by (simp add: decode_unknown_token name_AddressCreateFromString_def strlen_def
      unknown_address_value)

text \<open>
  C5, amended. Address equality is exactly the byte-for-byte comparison of the payloads
  (of \<^verbatim>\<open>__NAME___ADDRESS_BYTES\<close> bytes each). Decoding is not injective on texts: in
  non-strict mode the absent text, the empty text and \<open>unknown\<close> all decode to the
  unknown sentinel. A text decodes to an address only in non-strict mode, and only if it
  is absent, empty, \<open>unknown\<close> or \<open>__fee__\<close>.
\<close>

theorem address_equality_and_decoding:
  assumes "length (bytes r1) = NAME_ADDRESS_BYTES" and "length (bytes r2) = NAME_ADDRESS_BYTES"
  shows "name_AddressEqual (Some r1) (Some r2) = Returns (bytes r1 = bytes r2)
     \<and> name_AddressCreateFromString b None False = Returns name_AddressCreateUnknownAddress
     \<and> name_AddressCreateFromString b (Some '''') False = Returns name_AddressCreateUnknownAddress
     \<and> name_AddressCreateFromString b (Some ''unknown'') False = Returns name_AddressCreateUnknownAddress
     \<and> (name_AddressCreateFromString b s strict = Returns (Some a) \<longrightarrow>
          \<not> strict \<and> (s = None \<or> s = Some '''' \<or> s = Some ''unknown'' \<or> s = Some ''__fee__''))"
proof -
  have "name_AddressEqual (Some r1) (Some r2) = Returns (bytes r1 = bytes r2)"
    using assms cmp_bytes_eq_0 [of "bytes r1" "bytes r2"]
    by (auto simp: name_AddressEqual_def memcmp_def)
  moreover have "name_AddressCreateFromString b None False = Returns name_AddressCreateUnknownAddress"
    "name_AddressCreateFromString b (Some '''') False = Returns name_AddressCreateUnknownAddress"
    "name_AddressCreateFromString b (Some ''unknown'') False = Returns name_AddressCreateUnknownAddress"
    by (simp_all add: name_AddressCreateFromString_def strlen_def)
  ultimately show ?thesis
    using decode_Some_only_sentinel_texts [of b s strict a] by blast
qed

text \<open>
  The amended statement at the payloads \<open>[0]\<close> and \<open>[1]\<close>, which differ and compare
  unequal, and at the text \<open>unknown\<close>.
\<close>

theorem address_equality_and_decoding_witness:
  "length (bytes \<lparr>bytes = [0]\<rparr>) = NAME_ADDRESS_BYTES
   \<and> length (bytes \<lparr>bytes = [1]\<rparr>) = NAME_ADDRESS_BYTES
   \<and> name_AddressEqual (Some \<lparr>bytes = [0]\<rparr>) (Some \<lparr>bytes = [1]\<rparr>) = Returns False
   \<and> name_AddressCreateFromString debug_build (Some ''unknown'') False = Returns (Some \<lparr>bytes = [0]\<rparr>)
   \<and> name_AddressCreateFromString debug_build None False = Returns (Some \<lparr>bytes = [0]\<rparr>)"
proof -
  have h1: "length (bytes \<lparr>bytes = [0]\<rparr>) = NAME_ADDRESS_BYTES"
    by (simp add: NAME_ADDRESS_BYTES_def)
  have h2: "length (bytes \<lparr>bytes = [1]\<rparr>) = NAME_ADDRESS_BYTES"
    by (simp add: NAME_ADDRESS_BYTES_def)
  from address_equality_and_decoding [OF h1 h2, where b = debug_build and s = "Some ''unknown''"
      and strict = False and a = "\<lparr>bytes = [0]\<rparr>"] h1 h2
  show ?thesis
    by (simp add: unknown_address_value)
qed




section \<open>The transfer reconciler\<close>

text \<open>
  C1, the claim as stated: for every transfer bundle, applying it twice leaves exactly
  one tracked transfer. It fails in two ways. On the build where
  \<^verbatim>\<open>ASSERT_UNIMPLEMENTED\<close> asserts, a bundle with the source address \<open>tz1abc\<close> stops
  the process in the first application, and no wallet is left to look at. And where a
  transfer is found, the lookup takes the first match by hash or uids and may leave
  others: after the bundles A, B and C on the wallet without transfers, with a transfer's
  hash read from its transaction, C finds the transfer of A by its hash and gives it the
  uids of B; C applied again returns the same wallet, in which two transfers match C.
\<close>

theorem reconcile_twice_counterexample:
  "wkWalletManagerRecoverTransferFromTransferBundle debug_build 0 example_HashCreateFromString
     example_TransferGetHash example_manager (example_bundle\<lparr>bundle_from := Some ''tz1abc''\<rparr>)
     = AssertionFailed
   \<and> and_then (wkWalletManagerRecoverTransferFromTransferBundle debug_build 0
                  example_HashCreateFromString amount_TransferGetHash example_manager bundle_A)
       (\<lambda>m1. and_then (wkWalletManagerRecoverTransferFromTransferBundle debug_build 0
                          example_HashCreateFromString amount_TransferGetHash m1 bundle_B)
       (\<lambda>m2. and_then (wkWalletManagerRecoverTransferFromTransferBundle debug_build 0
                          example_HashCreateFromString amount_TransferGetHash m2 bundle_C)
       (\<lambda>m3. wkWalletManagerRecoverTransferFromTransferBundle debug_build 0
                 example_HashCreateFromString amount_TransferGetHash m3 bundle_C)))
     = Returns manager_ABC
   \<and> filter (transfer_matches amount_TransferGetHash
               (example_HashCreateFromString (bundle_hash bundle_C)) (bundle_uids bundle_C))
        (wallet_transfers (manager_wallet manager_ABC)) = [transfer_A, transfer_B]"
proof -
  have stop: "wkWalletManagerRecoverTransferFromTransferBundle debug_build 0
      example_HashCreateFromString example_TransferGetHash example_manager
      (example_bundle\<lparr>bundle_from := Some ''tz1abc''\<rparr>) = AssertionFailed"
    by (simp add: wkWalletManagerRecoverTransferFromTransferBundle_def example_bundle_def
        scan_zero decode_unknown_token decode_tz1_debug)
  have run: "and_then (wkWalletManagerRecoverTransferFromTransferBundle debug_build 0
                  example_HashCreateFromString amount_TransferGetHash example_manager bundle_A)
       (\<lambda>m1. and_then (wkWalletManagerRecoverTransferFromTransferBundle debug_build 0
                          example_HashCreateFromString amount_TransferGetHash m1 bundle_B)
       (\<lambda>m2. and_then (wkWalletManagerRecoverTransferFromTransferBundle debug_build 0
                          example_HashCreateFromString amount_TransferGetHash m2 bundle_C)
       (\<lambda>m3. wkWalletManagerRecoverTransferFromTransferBundle debug_build 0
                 example_HashCreateFromString amount_TransferGetHash m3 bundle_C)))
     = Returns manager_ABC"
    by (simp add: apply_A apply_B apply_C apply_C_again)
  have both: "filter (transfer_matches amount_TransferGetHash
               (example_HashCreateFromString (bundle_hash bundle_C)) (bundle_uids bundle_C))
        (wallet_transfers (manager_wallet manager_ABC)) = [transfer_A, transfer_B]"
    by (simp add: manager_ABC_def transfer_matches_def transfer_A_def transfer_B_def
        bundle_C_def example_bundle_def)
  from stop run both show ?thesis by simp
qed

text \<open>
  C1, amended. Reconciliation is idempotent where the bundle can be applied: for every
  transfer bundle whose two address texts decode (where \<^verbatim>\<open>ASSERT_UNIMPLEMENTED\<close> stops
  the process these are the absent text, the empty text, \<open>unknown\<close> and \<open>__fee__\<close>) and
  whose amount and fee fit 64 bits, the first application returns, and applying the
  bundle again, with the same hash and uids, returns the same manager: the second
  application finds a transfer by the lookup, sets its uids and state to what they
  already are, and adds no transfer. If no transfer matched before the first
  application, that application appended exactly one transfer, with the bundle's uids,
  the state made of the bundle's status and the default fee basis, the decoded
  addresses, the scanned amount and the bundle's attributes, and afterwards it is the
  only transfer that matches the bundle. If a transfer matched, the first match had its
  uids, its state and its attributes set to the bundle's, in place, and nothing else in
  the manager changed; other transfers that match the bundle may remain. This holds on
  every build, for every default fee basis, hash decoder and way to read a transfer's
  hash. The wallet's lookup and its registration of a transfer are modelled from the
  spec.
\<close>

theorem reconcile_same_bundle_twice:
  assumes to_returns: "name_AddressCreateFromString b (bundle_to bundle) False = Returns tgt"
    and from_returns: "name_AddressCreateFromString b (bundle_from bundle) False = Returns src"
    and amount_fits: "sscanf_PRIu64 (bundle_amount bundle) \<noteq> Unrepresentable"
    and fee_fits: "case bundle_fee bundle of None \<Rightarrow> True | Some fee \<Rightarrow> sscanf_PRIu64 fee \<noteq> Unrepresentable"
  shows
    "\<exists>m1. wkWalletManagerRecoverTransferFromTransferBundle b fb hc gh m bundle = Returns m1
       \<and> wkWalletManagerRecoverTransferFromTransferBundle b fb hc gh m1 bundle = Returns m1
       \<and> (let xs = wallet_transfers (manager_wallet m);
               state = \<lparr>state_status = bundle_status bundle,
                        state_feeBasis = \<lparr>feeBasis_unit = wallet_unitForFee (manager_wallet m),
                                          feeBasis_basis = fb\<rparr>\<rparr>;
               new = \<lparr>transfer_listener = wallet_listenerTransfer (manager_wallet m),
                      transfer_uids = Some (bundle_uids bundle),
                      transfer_unit = wallet_unit (manager_wallet m),
                      transfer_unitForFee = wallet_unitForFee (manager_wallet m),
                      transfer_state = state,
                      transfer_account = manager_account m,
                      transfer_transaction =
                        \<lparr>transaction_source = src, transaction_target = tgt,
                         transaction_amount =
                           (case sscanf_PRIu64 (bundle_amount bundle) of
                              Converted v \<Rightarrow> Some v | _ \<Rightarrow> None),
                         transaction_feeBasis = fb\<rparr>,
                      transfer_attributes = bundle_attributes bundle\<rparr>
           in case wkWalletGetTransferByHashOrUIDS gh (manager_wallet m)
                     (hc (bundle_hash bundle)) (bundle_uids bundle) of
                None \<Rightarrow>
                  m1 = m\<lparr>manager_wallet := (manager_wallet m)\<lparr>wallet_transfers := xs @ [new]\<rparr>\<rparr>
                  \<and> wkWalletGetTransferByHashOrUIDS gh (manager_wallet m1)
                       (hc (bundle_hash bundle)) (bundle_uids bundle) = Some (length xs)
                  \<and> filter (transfer_matches gh (hc (bundle_hash bundle)) (bundle_uids bundle))
                       (wallet_transfers (manager_wallet m1)) = [new]
              | Some i \<Rightarrow>
                  m1 = m\<lparr>manager_wallet := (manager_wallet m)\<lparr>wallet_transfers :=
                         xs[i := (xs ! i)\<lparr>transfer_uids := Some (bundle_uids bundle),
                                           transfer_state := state,
                                           transfer_attributes := bundle_attributes bundle\<rparr>]\<rparr>\<rparr>
                  \<and> i < length xs
                  \<and> wkWalletGetTransferByHashOrUIDS gh (manager_wallet m1)
                       (hc (bundle_hash bundle)) (bundle_uids bundle) = Some i)"
proof -
  let ?R = "wkWalletManagerRecoverTransferFromTransferBundle b fb hc gh"
  let ?P = "transfer_matches gh (hc (bundle_hash bundle)) (bundle_uids bundle)"
  let ?xs = "wallet_transfers (manager_wallet m)"
  let ?state = "\<lparr>state_status = bundle_status bundle,
      state_feeBasis = \<lparr>feeBasis_unit = wallet_unitForFee (manager_wallet m),
                        feeBasis_basis = fb\<rparr>\<rparr>"
  let ?new = "\<lparr>transfer_listener = wallet_listenerTransfer (manager_wallet m),
      transfer_uids = Some (bundle_uids bundle),
      transfer_unit = wallet_unit (manager_wallet m),
      transfer_unitForFee = wallet_unitForFee (manager_wallet m),
      transfer_state = ?state,
      transfer_account = manager_account m,
      transfer_transaction =
        \<lparr>transaction_source = src, transaction_target = tgt,
         transaction_amount =
           (case sscanf_PRIu64 (bundle_amount bundle) of Converted v \<Rightarrow> Some v | _ \<Rightarrow> None),
         transaction_feeBasis = fb\<rparr>,
      transfer_attributes = bundle_attributes bundle\<rparr>"
  obtain amt where amt: "scan_into None (bundle_amount bundle) = Returns amt"
    "amt = (case sscanf_PRIu64 (bundle_amount bundle) of Converted v \<Rightarrow> Some v | _ \<Rightarrow> None)"
    using amount_fits by (cases "sscanf_PRIu64 (bundle_amount bundle)") (simp_all add: scan_into_def)
  obtain fee where fee:
    "(case bundle_fee bundle of None \<Rightarrow> Returns (Some 0) | Some f \<Rightarrow> scan_into (Some 0) f) = Returns fee"
  proof (cases "bundle_fee bundle")
    case None
    then show ?thesis using that by simp
  next
    case (Some f)
    with fee_fits show ?thesis using that
      by (cases "sscanf_PRIu64 f") (simp_all add: scan_into_def)
  qed
  show ?thesis
  proof (cases "wkWalletGetTransferByHashOrUIDS gh (manager_wallet m) (hc (bundle_hash bundle))
                 (bundle_uids bundle)")
    case None
    let ?m1 = "m\<lparr>manager_wallet := (manager_wallet m)\<lparr>wallet_transfers := ?xs @ [?new]\<rparr>\<rparr>"
    from None have nf: "find_first ?P ?xs = None"
      by (simp add: wkWalletGetTransferByHashOrUIDS_def)
    have Pn: "?P ?new"
      by (simp add: transfer_matches_def)
    have first: "?R m bundle = Returns ?m1"
      using None amt fee to_returns from_returns
      by (simp add: wkWalletManagerRecoverTransferFromTransferBundle_def Let_def
          wkWalletManagerGetWallet_def wkWalletAddTransfer_def wkTransferCreateAs_def
          name_TransactionCreate_def wkClientTransferBundleGetTransferState_def
          wkFeeBasisCreateAs_def wkWalletManagerRecoverTransferAttributesFromTransferBundle_def)
    from reconciler_fixpoint [OF first] have again: "?R ?m1 bundle = Returns ?m1"
      by simp
    have found: "wkWalletGetTransferByHashOrUIDS gh (manager_wallet ?m1)
        (hc (bundle_hash bundle)) (bundle_uids bundle) = Some (length ?xs)"
      using find_first_append_new [OF nf Pn] by (simp add: wkWalletGetTransferByHashOrUIDS_def)
    have only: "filter ?P (wallet_transfers (manager_wallet ?m1)) = [?new]"
      using filter_matches_append_new [OF nf Pn] by simp
    from first again found only None show ?thesis
      by (intro exI [of _ ?m1]) (simp add: Let_def)
  next
    case (Some i)
    let ?upd = "(?xs ! i)\<lparr>transfer_uids := Some (bundle_uids bundle), transfer_state := ?state,
        transfer_attributes := bundle_attributes bundle\<rparr>"
    let ?m1 = "m\<lparr>manager_wallet := (manager_wallet m)\<lparr>wallet_transfers := ?xs[i := ?upd]\<rparr>\<rparr>"
    from Some have f: "find_first ?P ?xs = Some i"
      by (simp add: wkWalletGetTransferByHashOrUIDS_def)
    from find_first_Some [OF f] have i: "i < length ?xs" by simp
    have Pu: "?P ?upd"
      by (simp add: transfer_matches_def)
    have first: "?R m bundle = Returns ?m1"
      using Some i amt(1) fee to_returns from_returns
      by (simp add: wkWalletManagerRecoverTransferFromTransferBundle_def Let_def
          wkWalletManagerGetWallet_def wkTransferSetState_def wkTransferSetUids_def
          wkClientTransferBundleGetTransferState_def wkFeeBasisCreateAs_def
          wkWalletManagerRecoverTransferAttributesFromTransferBundle_def)
    from reconciler_fixpoint [OF first] have again: "?R ?m1 bundle = Returns ?m1"
      by simp
    have found: "wkWalletGetTransferByHashOrUIDS gh (manager_wallet ?m1)
        (hc (bundle_hash bundle)) (bundle_uids bundle) = Some i"
      using find_first_update_same [OF f Pu] by (simp add: wkWalletGetTransferByHashOrUIDS_def)
    from first again found i Some show ?thesis
      by (intro exI [of _ ?m1]) (simp add: Let_def)
  qed
qed

text \<open>
  The amended statement at the spec's example bundle on the wallet without transfers,
  where one transfer is appended, and at a later bundle for the same transfer on the
  wallet that holds it, where the transfer is found and gets the new status and the
  attribute; each bundle applied again changes nothing.
\<close>

theorem reconcile_same_bundle_twice_witness:
  "wkWalletManagerRecoverTransferFromTransferBundle debug_build 0 example_HashCreateFromString
     example_TransferGetHash example_manager example_bundle = Returns example_manager_after
   \<and> wkWalletManagerRecoverTransferFromTransferBundle debug_build 0 example_HashCreateFromString
     example_TransferGetHash example_manager_after example_bundle = Returns example_manager_after
   \<and> wallet_transfers (manager_wallet example_manager) = []
   \<and> wallet_transfers (manager_wallet example_manager_after) = [example_transfer]
   \<and> filter (transfer_matches example_TransferGetHash (example_HashCreateFromString ''0xabc'') ''u1'')
        (wallet_transfers (manager_wallet example_manager_after)) = [example_transfer]
   \<and> wkWalletManagerRecoverTransferFromTransferBundle debug_build 0 example_HashCreateFromString
     example_TransferGetHash example_manager_after later_bundle = Returns later_manager
   \<and> wkWalletManagerRecoverTransferFromTransferBundle debug_build 0 example_HashCreateFromString
     example_TransferGetHash later_manager later_bundle = Returns later_manager
   \<and> wallet_transfers (manager_wallet later_manager) = [later_transfer]
   \<and> state_status (transfer_state later_transfer) = ''failed''"
proof -
  have to1: "name_AddressCreateFromString debug_build (bundle_to example_bundle) False
      = Returns (Some \<lparr>bytes = [0]\<rparr>)"
    and from1: "name_AddressCreateFromString debug_build (bundle_from example_bundle) False
      = Returns (Some \<lparr>bytes = [0]\<rparr>)"
    by (simp_all add: example_bundle_def decode_unknown_token)
  have amount1: "sscanf_PRIu64 (bundle_amount example_bundle) \<noteq> Unrepresentable"
    by (simp add: example_bundle_def scan_0_value)
  have fee1: "case bundle_fee example_bundle of None \<Rightarrow> True
      | Some fee \<Rightarrow> sscanf_PRIu64 fee \<noteq> Unrepresentable"
    by (simp add: example_bundle_def)
  have to2: "name_AddressCreateFromString debug_build (bundle_to later_bundle) False
      = Returns (Some \<lparr>bytes = [0]\<rparr>)"
    and from2: "name_AddressCreateFromString debug_build (bundle_from later_bundle) False
      = Returns (Some \<lparr>bytes = [0]\<rparr>)"
    by (simp_all add: later_bundle_def example_bundle_def decode_unknown_token)
  have amount2: "sscanf_PRIu64 (bundle_amount later_bundle) \<noteq> Unrepresentable"
    by (simp add: later_bundle_def example_bundle_def scan_0_value)
  have fee2: "case bundle_fee later_bundle of None \<Rightarrow> True
      | Some fee \<Rightarrow> sscanf_PRIu64 fee \<noteq> Unrepresentable"
    by (simp add: later_bundle_def example_bundle_def)
  have lookup1: "wkWalletGetTransferByHashOrUIDS example_TransferGetHash
      (manager_wallet example_manager) (example_HashCreateFromString (bundle_hash example_bundle))
      (bundle_uids example_bundle) = None"
    by (simp add: wkWalletGetTransferByHashOrUIDS_def example_manager_def example_wallet_def)
  have lookup2: "wkWalletGetTransferByHashOrUIDS example_TransferGetHash
      (manager_wallet example_manager_after)
      (example_HashCreateFromString (bundle_hash later_bundle)) (bundle_uids later_bundle) = Some 0"
    by (simp add: wkWalletGetTransferByHashOrUIDS_def example_manager_after_def
        transfer_matches_def example_transfer_def later_bundle_def example_bundle_def)
  have known: "wallet_transfers (manager_wallet example_manager) = []"
    "wallet_transfers (manager_wallet example_manager_after) = [example_transfer]"
    "wallet_transfers (manager_wallet later_manager) = [later_transfer]"
    "state_status (transfer_state later_transfer) = ''failed''"
    "bundle_hash example_bundle = ''0xabc''" "bundle_uids example_bundle = ''u1''"
    by (simp_all add: example_manager_def example_wallet_def example_manager_after_def
        later_manager_def later_transfer_def example_bundle_def)
  from reconcile_same_bundle_twice [OF to1 from1 amount1 fee1, where fb = "0::nat"
      and hc = example_HashCreateFromString and gh = example_TransferGetHash
      and m = example_manager]
  have one: "wkWalletManagerRecoverTransferFromTransferBundle debug_build 0
      example_HashCreateFromString example_TransferGetHash example_manager_after example_bundle
      = Returns example_manager_after
    \<and> filter (transfer_matches example_TransferGetHash (example_HashCreateFromString ''0xabc'') ''u1'')
        (wallet_transfers (manager_wallet example_manager_after)) = [example_transfer]"
    using lookup1 example_first
    by (auto simp: Let_def example_transfer_def example_manager_def example_wallet_def
        example_bundle_def example_manager_after_def scan_0_value)
  from reconcile_same_bundle_twice [OF to2 from2 amount2 fee2, where fb = "0::nat"
      and hc = example_HashCreateFromString and gh = example_TransferGetHash
      and m = example_manager_after]
  have two: "wkWalletManagerRecoverTransferFromTransferBundle debug_build 0
      example_HashCreateFromString example_TransferGetHash later_manager later_bundle
      = Returns later_manager"
    using lookup2 later_first by (auto simp: Let_def)
  from one two example_first later_first known show ?thesis by simp
qed




section \<open>Fee estimation, limits and unsupported operations\<close>

text \<open>
  C6, the claim as stated: the refinement parses \<open>consumed_gas\<close>, \<open>storage_size\<close> and
  \<open>counter\<close>, fails when one of them is missing, and returns a counter one higher
  and padded limits. It fails: with no attribute at all the call returns a fee basis,
  and it returns the same fee basis for the counters \<open>7\<close> and \<open>8\<close>.
\<close>

theorem fee_estimate_counterexample:
  "wkWalletManagerRecoverFeeBasisFromFeeEstimate (0::nat) example_manager example_transfer
     example_networkFee (0::int) 0 [] []
     = Some \<lparr>feeBasis_unit = 3, feeBasis_basis = 0\<rparr>
   \<and> wkWalletManagerRecoverFeeBasisFromFeeEstimate (0::nat) example_manager example_transfer
     example_networkFee (0::int) 3 [''consumed_gas'', ''storage_size'', ''counter'']
       [''1000'', ''300'', ''7'']
     = Some \<lparr>feeBasis_unit = 3, feeBasis_basis = 0\<rparr>
   \<and> wkWalletManagerRecoverFeeBasisFromFeeEstimate (0::nat) example_manager example_transfer
     example_networkFee (0::int) 3 [''consumed_gas'', ''storage_size'', ''counter'']
       [''1000'', ''300'', ''8'']
     = Some \<lparr>feeBasis_unit = 3, feeBasis_basis = 0\<rparr>"
  by (simp add: wkWalletManagerRecoverFeeBasisFromFeeEstimate_def wkFeeBasisCreateAs_def
      example_networkFee_def)

text \<open>
  C6, amended. Recover-fee-basis-from-estimate does not read the attribute list (the
  parsing is compiled out): for every attribute list, also one where a key is absent or
  a value is no number, it returns, and never fails, the fee basis made of the network
  fee's price-per-cost-factor unit and the default network fee basis. The result depends
  on nothing but these two: no counter is incremented and no margin applied.
\<close>

theorem fee_estimate_ignores_attributes:
  "wkWalletManagerRecoverFeeBasisFromFeeEstimate fb cwm transfer networkFee costUnits
       attributesCount attributeKeys attributeVals
     = Some (wkFeeBasisCreateAs (pricePerCostFactorUnit networkFee) fb)
   \<and> wkWalletManagerRecoverFeeBasisFromFeeEstimate fb cwm transfer networkFee costUnits
       attributesCount attributeKeys attributeVals
     = wkWalletManagerRecoverFeeBasisFromFeeEstimate fb cwm' transfer' networkFee costUnits'
       attributesCount' attributeKeys' attributeVals'"
  by (simp add: wkWalletManagerRecoverFeeBasisFromFeeEstimate_def)

text \<open>
  C7, the claim as stated: every unsupported operation is reported by a status or return
  value and no path reaches a failing assertion. It fails: with assertions compiled in,
  sign-with-key and transaction-bundle recovery stop the process at \<^verbatim>\<open>assert (0)\<close>.
\<close>

theorem unsupported_operations_counterexample:
  "wkWalletManagerSignTransactionWithKey debug_build example_manager example_wallet
     example_transfer 9 = AssertionFailed
   \<and> wkWalletManagerRecoverTransfersFromTransactionBundle debug_build example_manager (0::nat)
     = AssertionFailed"
  by (simp add: wkWalletManagerSignTransactionWithKey_def
      wkWalletManagerRecoverTransfersFromTransactionBundle_def c_assert_def debug_build_def)

text \<open>
  C7, amended. Wallet sweeping is reported as unsupported by an explicit value on every
  input: the support predicate returns \<^verbatim>\<open>WK_WALLET_SWEEPER_UNSUPPORTED_CURRENCY\<close> and
  the sweeper constructor returns the null pointer, with no assertion. Sign-with-key and
  transaction-bundle recovery execute \<^verbatim>\<open>assert (0)\<close> on every input: they stop the
  process unless \<^verbatim>\<open>NDEBUG\<close> is defined, and only then does sign-with-key return
  \<^verbatim>\<open>WK_FALSE\<close> and does transaction-bundle recovery return (it has no value to return).
\<close>

theorem unsupported_operations:
  "wkWalletManagerWalletSweeperValidateSupported manager wallet key
     = WK_WALLET_SWEEPER_UNSUPPORTED_CURRENCY
   \<and> wkWalletManagerCreateWalletSweeper manager wallet key = None
   \<and> wkWalletManagerSignTransactionWithKey b manager wallet transfer key
     = (if NDEBUG b then Returns WK_FALSE else AssertionFailed)
   \<and> wkWalletManagerRecoverTransfersFromTransactionBundle b manager bundle
     = (if NDEBUG b then Returns () else AssertionFailed)"
  by (simp add: wkWalletManagerWalletSweeperValidateSupported_def
      wkWalletManagerCreateWalletSweeper_def wkWalletManagerSignTransactionWithKey_def
      wkWalletManagerRecoverTransfersFromTransactionBundle_def c_assert_def)

text \<open>
  C10. Estimate-limit returns the wallet's balance when \<^verbatim>\<open>asMaximum\<close> is
  \<^verbatim>\<open>WK_TRUE\<close> and the integer amount zero in the given unit when it is \<^verbatim>\<open>WK_FALSE\<close>,
  for every manager, wallet, target, network fee and unit; the two flags hold afterwards
  what they held before.
\<close>

theorem estimate_limit:
  "wkWalletManagerEstimateLimit manager wallet WK_TRUE target networkFee needEstimate
       isZeroIfInsuffientFunds unit
     = (wkWalletGetBalance wallet, needEstimate, isZeroIfInsuffientFunds)
   \<and> wkWalletManagerEstimateLimit manager wallet WK_FALSE target networkFee needEstimate
       isZeroIfInsuffientFunds unit
     = (wkAmountCreateInteger 0 unit, needEstimate, isZeroIfInsuffientFunds)
   \<and> wkWalletGetBalance wallet = wallet_balance wallet
   \<and> amount_value (wkAmountCreateInteger 0 unit) = 0"
  by (simp add: wkWalletManagerEstimateLimit_def wkWalletGetBalance_def wkAmountCreateInteger_def)

end
